theory Spec2Isabelle
  imports Complex_Main
begin

text \<open>
  A shallow embedding of the web client of the CSV mapper (\<^verbatim>\<open>ui/src\<close>): the state of
  the application and of its panels as records, each handler as a function from the state
  (and from the outcome of the request it awaits) to the new state, and each request as the
  value the handler passes to the service. The validation engine, which is not part of
  these sources, follows the specification and is kept apart.
\<close>

section \<open>Values exchanged with the service\<close>

text \<open>
  Every response the UI reads comes out of \<^verbatim>\<open>res.json()\<close>, so the run-time values are
  JSON values.
\<close>

datatype json =
    JNull
  | JBool bool
  | JNumber real
  | JString string
  | JArray "json list"
  | JObject "(string \<times> json) list"

text \<open>
  \<^verbatim>\<open>Record<string, string>\<close>: a plain object used as a dictionary. The declared value type
  is string, but the code tests values against null at run time, so the values are JSON
  values. Key order plays no part in any property below.
\<close>

type_synonym Mapping = "string \<rightharpoonup> json"

text \<open>Decimal rendering of a number inside a template string or JSX text.\<close>

definition digit_char :: "nat \<Rightarrow> char" where
  "digit_char d = ''0123456789'' ! d"

fun string_of_nat :: "nat \<Rightarrow> string" where
  "string_of_nat n =
     (if n < 10 then [digit_char n] else string_of_nat (n div 10) @ [digit_char (n mod 10)])"

declare string_of_nat.simps [simp del]

definition string_of_int :: "int \<Rightarrow> string" where
  "string_of_int i = (if i < 0 then CHR ''-'' # string_of_nat (nat (- i)) else string_of_nat (nat i))"

section \<open>ui/src/types/index.ts\<close>

text \<open>
  \<^verbatim>\<open>interface SchemaField { name: string; required: boolean }\<close>. The field of
  \<^verbatim>\<open>CsvColumn\<close> is also called \<^verbatim>\<open>name\<close> in the source; it is \<open>col_name\<close> here.
\<close>

record SchemaField =
  name :: string
  required :: bool

text \<open>\<^verbatim>\<open>interface Schema { fields: SchemaField[] }\<close>; the property is \<open>schema_fields\<close> here.\<close>

record Schema =
  schema_fields :: "SchemaField list"

record CsvColumn =
  col_name :: string

record Suggestion =
  schema_field :: string
  csv_column :: string
  confidence :: real

text \<open>
  The list properties of the responses are declared non-optional, but every reader guards
  them with \<^verbatim>\<open>|| []\<close>; \<open>None\<close> is the absent property.
\<close>

record SuggestMappingResponse =
  suggestions :: "Suggestion list option"

record ValidateMappingResponse =
  is_valid :: bool
  errors :: "string list option"

definition or_empty :: "'a list option \<Rightarrow> 'a list" where
  "or_empty xs = (case xs of None \<Rightarrow> [] | Some ys \<Rightarrow> ys)"

section \<open>ui/src/services/api.ts\<close>

text \<open>
  The three calls that carry a mapping to the service, with their arguments in the order
  of the source. A call either throws (\<open>Inl\<close>, the \<^verbatim>\<open>Error\<close>'s message) or returns
  the parsed response (\<open>Inr\<close>).
\<close>

datatype api_call =
    validateMapping string bool Mapping
  | saveMapping string Mapping
  | saveData string bool Mapping

section \<open>ui/src/App.tsx\<close>

record AppState =
  schema :: "Schema option"
  savedMappings :: "(string \<times> string) list"
  previewRows :: "string list list"
  currentFileId :: "string option"
  currentHasHeader :: bool
  csvColumns :: "CsvColumn list"
  mapping :: Mapping
  statusMessage :: string

definition setMapping :: "Mapping \<Rightarrow> AppState \<Rightarrow> AppState" where
  "setMapping m st = st\<lparr>mapping := m\<rparr>"

definition setCurrentFileId :: "string option \<Rightarrow> AppState \<Rightarrow> AppState" where
  "setCurrentFileId f st = st\<lparr>currentFileId := f\<rparr>"

definition setCurrentHasHeader :: "bool \<Rightarrow> AppState \<Rightarrow> AppState" where
  "setCurrentHasHeader h st = st\<lparr>currentHasHeader := h\<rparr>"

definition setStatusMessage :: "string \<Rightarrow> AppState \<Rightarrow> AppState" where
  "setStatusMessage s st = st\<lparr>statusMessage := s\<rparr>"

text \<open>The three state updates of \<^verbatim>\<open>handleUploadComplete\<close>, in the order of the source.\<close>

definition handleUploadComplete :: "string \<Rightarrow> bool \<Rightarrow> AppState \<Rightarrow> AppState" where
  "handleUploadComplete fileId hasHeader st =
     setCurrentHasHeader hasHeader (setCurrentFileId (Some fileId) (setMapping Map.empty st))"

text \<open>
  \<^verbatim>\<open>newMapping[k] = v\<close> on an object literal, \<open>v\<close> a string. The key \<^verbatim>\<open>__proto__\<close> is
  the accessor inherited from \<^verbatim>\<open>Object.prototype\<close>, whose setter ignores a string: no
  property is created for it.
\<close>

definition assign_string :: "Mapping \<Rightarrow> string \<Rightarrow> string \<Rightarrow> Mapping" where
  "assign_string obj k v = (if k = ''__proto__'' then obj else obj(k \<mapsto> JString v))"

text \<open>
  The \<^verbatim>\<open>for (const s of suggestions)\<close> loop of \<^verbatim>\<open>handleAutoSuggest\<close>, on the pair
  (\<^verbatim>\<open>newMapping\<close>, \<^verbatim>\<open>count\<close>). \<^verbatim>\<open>s.schema_field &&\<close> is the test that the string is
  not empty. Confidence is a finite double; 0.5 is one too, so the comparison is the one
  of the reals.
\<close>

fun suggest_loop :: "Suggestion list \<Rightarrow> Mapping \<times> nat \<Rightarrow> Mapping \<times> nat" where
  "suggest_loop [] acc = acc"
| "suggest_loop (s # ss) (newMapping, count) =
     (if schema_field s \<noteq> [] \<and> confidence s \<ge> 0.5
      then suggest_loop ss (assign_string newMapping (schema_field s) (csv_column s), count + 1)
      else suggest_loop ss (newMapping, count))"

definition handleAutoSuggest :: "string + SuggestMappingResponse \<Rightarrow> AppState \<Rightarrow> AppState" where
  "handleAutoSuggest result st =
     (let st1 = setStatusMessage ''Generating suggestions...'' st in
      case result of
        Inl err \<Rightarrow> setStatusMessage ''Failed to auto-suggest.'' st1
      | Inr data \<Rightarrow>
          (case suggest_loop (or_empty (suggestions data)) (Map.empty, 0) of
             (newMapping, count) \<Rightarrow>
               setStatusMessage
                 (if count > 0 then ''Auto-mapped '' @ string_of_nat count @ '' columns.''
                  else ''No confident matches found.'')
                 (setMapping newMapping st1)))"

text \<open>
  \<^verbatim>\<open>setMapping((prev) => ({ ...prev, [schemaField]: csvColumn }))\<close>: the spread copies
  every own property of \<open>prev\<close>, the computed key defines an own property (also for
  \<^verbatim>\<open>__proto__\<close>).
\<close>

definition updateMapping :: "string \<Rightarrow> string \<Rightarrow> AppState \<Rightarrow> AppState" where
  "updateMapping schemaField csvColumn st =
     setMapping ((mapping st)(schemaField \<mapsto> JString csvColumn)) st"

section \<open>ui/src/components/MappingTable.tsx\<close>

text \<open>
  One table row per schema field: the label, the red marker, the value of the select
  (\<^verbatim>\<open>mapping[field.name] ?? ''\<close>, read here among the own properties of the mapping)
  and its options. Changing the select of the row of \<open>field\<close> to the option \<open>v\<close>
  calls \<^verbatim>\<open>onChangeMapping(field.name, v)\<close>.
\<close>

record MappingRow =
  row_label :: string
  row_marker :: string
  row_value :: json
  row_options :: "string list"

definition nullish_or :: "json option \<Rightarrow> json \<Rightarrow> json" where
  "nullish_or v d = (case v of None \<Rightarrow> d | Some JNull \<Rightarrow> d | Some w \<Rightarrow> w)"

definition MappingTable :: "Schema \<Rightarrow> CsvColumn list \<Rightarrow> Mapping \<Rightarrow> MappingRow list" where
  "MappingTable sch cols m =
     map (\<lambda>field.
           \<lparr>row_label = name field,
            row_marker = (if required field then ''*'' else ''''),
            row_value = nullish_or (m (name field)) (JString ''''),
            row_options = '''' # map col_name cols\<rparr>)
         (schema_fields sch)"

definition onChange :: "SchemaField \<Rightarrow> string \<Rightarrow> AppState \<Rightarrow> AppState" where
  "onChange field v st = updateMapping (name field) v st"

section \<open>ActionPanel: validation request and report\<close>

text \<open>
  \<^verbatim>\<open>Object.fromEntries(Object.entries(obj).filter(p))\<close>: the own entries of \<open>obj\<close> that
  satisfy \<open>p\<close>, as a new object.
\<close>

definition filter_entries :: "(string \<times> json \<Rightarrow> bool) \<Rightarrow> Mapping \<Rightarrow> Mapping" where
  "filter_entries p obj =
     (\<lambda>k. case obj k of None \<Rightarrow> None | Some v \<Rightarrow> if p (k, v) then Some v else None)"

text \<open>The filter \<^verbatim>\<open>([_, v]) => v != null && v !== ''\<close> used by all three senders.\<close>

definition nonempty_entry :: "string \<times> json \<Rightarrow> bool" where
  "nonempty_entry = (\<lambda>(_, v). v \<noteq> JNull \<and> v \<noteq> JString [])"

datatype status = idle | validating | success | error

record ActionPanelState =
  status :: status
  errorList :: "string list"

text \<open>The call \<^verbatim>\<open>handleValidate\<close> makes, and what it does with the outcome of the call.\<close>

definition handleValidate_call :: "string \<Rightarrow> bool \<Rightarrow> Mapping \<Rightarrow> api_call" where
  "handleValidate_call fileId hasHeader m =
     (let mappingFiltered = filter_entries nonempty_entry m
      in validateMapping fileId hasHeader mappingFiltered)"

definition handleValidate ::
  "string + ValidateMappingResponse \<Rightarrow> ActionPanelState \<Rightarrow> ActionPanelState" where
  "handleValidate result st =
     (let st1 = st\<lparr>status := validating, errorList := []\<rparr> in
      case result of
        Inl err \<Rightarrow>
          st1\<lparr>status := error,
              errorList := [''System error: Failed to connect to validation service.'']\<rparr>
      | Inr data \<Rightarrow>
          if is_valid data then st1\<lparr>status := success\<rparr>
          else st1\<lparr>status := error, errorList := or_empty (errors data)\<rparr>)"

text \<open>
  \<^verbatim>\<open>ValidationReport\<close>: the header line, the list items and the closing line, which is
  rendered only when \<^verbatim>\<open>remaining > 0\<close>.
\<close>

record Report =
  report_header :: string
  report_items :: "string list"
  report_more :: "string option"

definition MAX_DISPLAY :: nat where
  "MAX_DISPLAY = 100"

definition ValidationReport :: "string list \<Rightarrow> Report" where
  "ValidationReport errs =
     (let totalCount = length errs;
          displayErrors = take MAX_DISPLAY errs;
          remaining = int totalCount - int MAX_DISPLAY
      in \<lparr>report_header =
            ''Validation Failed: '' @ string_of_nat totalCount @ '' error'' @
            (if totalCount \<noteq> 1 then ''s'' else []) @ '' found'',
          report_items = displayErrors,
          report_more =
            (if remaining > 0
             then Some (''... and '' @ string_of_int remaining @ '' more errors.'')
             else None)\<rparr>)"

text \<open>The panel renders the report only in the error status with a non-empty list.\<close>

definition ActionPanel_report :: "ActionPanelState \<Rightarrow> Report option" where
  "ActionPanel_report st =
     (if status st = error \<and> length (errorList st) > 0
      then Some (ValidationReport (errorList st)) else None)"

section \<open>ui/src/components/StoragePanel.tsx\<close>

text \<open>
  \<^verbatim>\<open>String.prototype.trim\<close> removes white space and line terminators from both ends.
  A \<open>char\<close> is a code unit below 256; the white space code units in that range are
  9 to 13, 32 and 160.
\<close>

definition is_whitespace :: "char \<Rightarrow> bool" where
  "is_whitespace c = (of_char c \<in> {9, 10, 11, 12, 13, 32, 160 :: nat})"

definition trim :: "string \<Rightarrow> string" where
  "trim s = rev (dropWhile is_whitespace (rev (dropWhile is_whitespace s)))"

text \<open>\<^verbatim>\<open>a || b\<close> on strings: \<open>a\<close> unless it is empty.\<close>

definition or_default :: "string \<Rightarrow> string \<Rightarrow> string" where
  "or_default a b = (if a \<noteq> [] then a else b)"

definition handleSaveMapping_call :: "string \<Rightarrow> Mapping \<Rightarrow> api_call" where
  "handleSaveMapping_call mappingName m =
     (let mappingToSave = filter_entries nonempty_entry m;
          name = or_default (trim mappingName) ''Unnamed mapping''
      in saveMapping name mappingToSave)"

definition handleSaveData_call :: "string \<Rightarrow> bool \<Rightarrow> Mapping \<Rightarrow> api_call" where
  "handleSaveData_call fileId hasHeader m =
     (let mappingToSave = filter_entries nonempty_entry m
      in saveData fileId hasHeader mappingToSave)"

text \<open>The mapping argument of a call, and the name argument of a save.\<close>

fun sent_mapping :: "api_call \<Rightarrow> Mapping" where
  "sent_mapping (validateMapping _ _ m) = m"
| "sent_mapping (saveMapping _ m) = m"
| "sent_mapping (saveData _ _ m) = m"

fun sent_name :: "api_call \<Rightarrow> string option" where
  "sent_name (saveMapping n _) = Some n"
| "sent_name _ = None"

section \<open>The validation engine of the specification\<close>

text \<open>
  The service's validator is not among the sources, so the engine \<^verbatim>\<open>validate\<close> is
  written here from sections 3 and 4.3 of the specification. What the specification leaves
  to the implementation is a parameter of the model.
\<close>

text \<open>Modelled from the spec: the \<open>expected_kind\<close> of a schema field (section 3).\<close>

datatype kind = KString | KEmail | KDate | KBoolean | KEnum | KIdentifier

text \<open>
  Modelled from the spec: the SchemaField of the engine, the \<open>name\<close> and \<open>required\<close>
  of the UI's declaration together with the \<open>expected_kind\<close>.
\<close>

record SpecSchemaField = SchemaField +
  expected_kind :: kind

text \<open>Modelled from the spec: a Column, its name and its bounded sample of raw values.\<close>

record Column = CsvColumn +
  sample_values :: "string list"

text \<open>Modelled from the spec: the closed set of reason codes (section 6).\<close>

datatype reason =
    MISSING_REQUIRED_MAPPING
  | UNKNOWN_COLUMN
  | REQUIRED_VALUE_MISSING
  | INVALID_FORMAT
  | INVALID_ENUM_VALUE

text \<open>
  Modelled from the spec: a ValidationError; \<open>row_index\<close> is absent for a mapping-level
  error, the reason is the code together with its human text.
\<close>

record ValidationError =
  row_index :: "nat option"
  field :: string
  reason :: reason
  message :: string

text \<open>Modelled from the spec: the output \<^verbatim>\<open>{is_valid, errors}\<close> of the engine.\<close>

record ValidationResult =
  result_is_valid :: bool
  result_errors :: "ValidationError list"

text \<open>
  Modelled from the spec: what the specification names without fixing it: when a value
  counts as empty or blank, the recognizer of each kind, the allowed set of an enum field
  (by field name), the text of a message (from the code, the field and the value), and the
  single structural error that section 7 reports for an empty schema or column list, of
  which the specification gives neither the field nor the code.
\<close>

record Recognizers =
  is_blank :: "string \<Rightarrow> bool"
  recognizes :: "kind \<Rightarrow> string \<Rightarrow> bool"
  allowed_values :: "string \<Rightarrow> string list"
  describe :: "reason \<Rightarrow> string \<Rightarrow> string \<Rightarrow> string"
  structural_error :: ValidationError

text \<open>
  Modelled from the spec: the column a field is mapped to; an omitted entry and an empty
  column name both mean unmapped.
\<close>

definition mapped_column :: "(string \<rightharpoonup> string) \<Rightarrow> string \<Rightarrow> string option" where
  "mapped_column m f = (case m f of None \<Rightarrow> None | Some c \<Rightarrow> if c = [] then None else Some c)"

text \<open>
  Modelled from the spec: the mapping-level check of one field (phase 1). A required field
  without a column gives \<open>MISSING_REQUIRED_MAPPING\<close>, a column name that the file does
  not have gives \<open>UNKNOWN_COLUMN\<close>; both without a row index.
\<close>

definition mapping_check ::
  "Recognizers \<Rightarrow> (string \<rightharpoonup> string) \<Rightarrow> Column list \<Rightarrow> SpecSchemaField \<Rightarrow> ValidationError list" where
  "mapping_check R m columns f =
     (case mapped_column m (name f) of
        None \<Rightarrow>
          if required f
          then [\<lparr>row_index = None, field = name f, reason = MISSING_REQUIRED_MAPPING,
                 message = describe R MISSING_REQUIRED_MAPPING (name f) []\<rparr>]
          else []
      | Some c \<Rightarrow>
          if c \<in> set (map col_name columns) then []
          else [\<lparr>row_index = None, field = name f, reason = UNKNOWN_COLUMN,
                 message = describe R UNKNOWN_COLUMN (name f) c\<rparr>])"

text \<open>Modelled from the spec: the position of the first column with a given name.\<close>

fun column_index :: "string \<Rightarrow> Column list \<Rightarrow> nat option" where
  "column_index c [] = None"
| "column_index c (col # cols) =
     (if col_name col = c then Some 0 else map_option Suc (column_index c cols))"

text \<open>
  Modelled from the spec: the position of the column of a field whose mapping-level check
  passed; \<open>None\<close> for a field that is unmapped or mapped to an unknown column, which gets
  no row-level check.
\<close>

definition checked_column :: "(string \<rightharpoonup> string) \<Rightarrow> Column list \<Rightarrow> SpecSchemaField \<Rightarrow> nat option" where
  "checked_column m columns f =
     (case mapped_column m (name f) of None \<Rightarrow> None | Some c \<Rightarrow> column_index c columns)"

text \<open>Modelled from the spec: a missing cell of a ragged row is the empty value.\<close>

definition cell :: "string list \<Rightarrow> nat \<Rightarrow> string" where
  "cell row j = (if j < length row then row ! j else [])"

text \<open>
  Modelled from the spec: the row-level check of one cell (phase 2), in the order of the
  specification: blank value of a required field, then the allowed set of an enum field,
  then the recognizer of the field's kind.
\<close>

definition cell_check :: "Recognizers \<Rightarrow> SpecSchemaField \<Rightarrow> nat \<Rightarrow> string \<Rightarrow> ValidationError list" where
  "cell_check R f i v =
     (if is_blank R v then
        (if required f
         then [\<lparr>row_index = Some i, field = name f, reason = REQUIRED_VALUE_MISSING,
                message = describe R REQUIRED_VALUE_MISSING (name f) v\<rparr>]
         else [])
      else if expected_kind f = KEnum then
        (if v \<in> set (allowed_values R (name f)) then []
         else [\<lparr>row_index = Some i, field = name f, reason = INVALID_ENUM_VALUE,
                message = describe R INVALID_ENUM_VALUE (name f) v\<rparr>])
      else if recognizes R (expected_kind f) v then []
      else [\<lparr>row_index = Some i, field = name f, reason = INVALID_FORMAT,
             message = describe R INVALID_FORMAT (name f) v\<rparr>])"

text \<open>
  Modelled from the spec: the row-level errors of one field in one row, none for a field
  that did not pass its mapping-level check.
\<close>

definition field_row_errors ::
  "Recognizers \<Rightarrow> (string \<rightharpoonup> string) \<Rightarrow> Column list \<Rightarrow> nat \<Rightarrow> string list \<Rightarrow> SpecSchemaField
   \<Rightarrow> ValidationError list" where
  "field_row_errors R m columns i row f =
     (case checked_column m columns f of None \<Rightarrow> [] | Some j \<Rightarrow> cell_check R f i (cell row j))"

text \<open>Modelled from the spec: the errors of one row, field by field in schema order.\<close>

definition row_errors ::
  "Recognizers \<Rightarrow> (string \<rightharpoonup> string) \<Rightarrow> Column list \<Rightarrow> SpecSchemaField list \<Rightarrow> nat \<Rightarrow> string list
   \<Rightarrow> ValidationError list" where
  "row_errors R m columns sch i row = concat (map (field_row_errors R m columns i row) sch)"

text \<open>Modelled from the spec: the pass over the data rows, the row index counting from 0.\<close>

fun rows_errors ::
  "Recognizers \<Rightarrow> (string \<rightharpoonup> string) \<Rightarrow> Column list \<Rightarrow> SpecSchemaField list \<Rightarrow> nat
   \<Rightarrow> string list list \<Rightarrow> ValidationError list" where
  "rows_errors R m columns sch i [] = []"
| "rows_errors R m columns sch i (row # rows) =
     row_errors R m columns sch i row @ rows_errors R m columns sch (Suc i) rows"

text \<open>
  Modelled from the spec: \<^verbatim>\<open>validate(mapping, columns, rows, schema)\<close>. An empty
  column list or an empty schema is an input shape error (section 7): it is reported as a
  single structural error, without a row index, and no field is analysed. Otherwise the
  result has the mapping-level errors, then the row-level errors of every row. \<open>is_valid\<close>
  is set from the accumulated list. (The arguments are always present here, so the contract
  violation of a missing argument does not arise.)
\<close>

definition validate ::
  "Recognizers \<Rightarrow> (string \<rightharpoonup> string) \<Rightarrow> Column list \<Rightarrow> string list list \<Rightarrow> SpecSchemaField list
   \<Rightarrow> ValidationResult" where
  "validate R m columns rows sch =
     (let errs =
        (if columns = [] \<or> sch = [] then [(structural_error R)\<lparr>row_index := None\<rparr>]
         else concat (map (mapping_check R m columns) sch) @ rows_errors R m columns sch 0 rows)
      in \<lparr>result_is_valid = (errs = []), result_errors = errs\<rparr>)"

section \<open>Violations, in the words of the specification\<close>

text \<open>
  From the specification's words (section 4.3, phase 2): a raw value is a violation for a
  field when it is blank and the field is required, or when it is present and is not in the
  allowed set of an enum field, or fails the recognizer of the kind of any other field.
  The reason code that goes with it.
\<close>

definition invalid_value :: "Recognizers \<Rightarrow> SpecSchemaField \<Rightarrow> string \<Rightarrow> bool" where
  "invalid_value R f v =
     (if is_blank R v then required f
      else if expected_kind f = KEnum then v \<notin> set (allowed_values R (name f))
      else \<not> recognizes R (expected_kind f) v)"

definition expected_reason :: "Recognizers \<Rightarrow> SpecSchemaField \<Rightarrow> string \<Rightarrow> reason" where
  "expected_reason R f v =
     (if is_blank R v then REQUIRED_VALUE_MISSING
      else if expected_kind f = KEnum then INVALID_ENUM_VALUE
      else INVALID_FORMAT)"

text \<open>
  From the specification's words (section 4.3, phase 1): a field has a mapping-level
  violation when it is required and has no non-empty mapped column, or when its mapped
  column is not a column of the file. The reason code that goes with it, and the error that
  reports it: no row index, the field, the code and the message for it.
\<close>

definition mapping_violation :: "(string \<rightharpoonup> string) \<Rightarrow> Column list \<Rightarrow> SpecSchemaField \<Rightarrow> bool" where
  "mapping_violation m columns f =
     (case m (name f) of
        None \<Rightarrow> required f
      | Some c \<Rightarrow> if c = [] then required f else c \<notin> set (map col_name columns))"

definition mapping_reason :: "(string \<rightharpoonup> string) \<Rightarrow> SpecSchemaField \<Rightarrow> reason" where
  "mapping_reason m f =
     (case m (name f) of
        None \<Rightarrow> MISSING_REQUIRED_MAPPING
      | Some c \<Rightarrow> if c = [] then MISSING_REQUIRED_MAPPING else UNKNOWN_COLUMN)"

definition mapping_error :: "Recognizers \<Rightarrow> (string \<rightharpoonup> string) \<Rightarrow> SpecSchemaField \<Rightarrow> ValidationError" where
  "mapping_error R m f =
     \<lparr>row_index = None, field = name f, reason = mapping_reason m f,
      message = describe R (mapping_reason m f) (name f)
                  (case m (name f) of None \<Rightarrow> [] | Some c \<Rightarrow> c)\<rparr>"

text \<open>
  From the specification's words: the raw value of a row for a field: defined when the
  field's entry in the mapping is a non-empty name and the file has a column of that name,
  and then the row's cell under the first such column, the empty value when the row is too
  short.
\<close>

definition mapped_value ::
  "(string \<rightharpoonup> string) \<Rightarrow> Column list \<Rightarrow> string list \<Rightarrow> SpecSchemaField \<Rightarrow> string option" where
  "mapped_value m columns row f =
     (case m (name f) of
        None \<Rightarrow> None
      | Some c \<Rightarrow>
          if c = [] then None
          else (case find (\<lambda>(j, col). col_name col = c) (enumerate 0 columns) of
                  None \<Rightarrow> None
                | Some (j, col) \<Rightarrow> Some (if j < length row then row ! j else [])))"

text \<open>
  From the specification's words: a row has a violation for a field when the field has a
  raw value in the row and that value is a violation for the field; the error that reports
  it has the row's index, the field, the reason code of the violation and the message for
  it, which is given the offending value.
\<close>

definition row_violation ::
  "Recognizers \<Rightarrow> (string \<rightharpoonup> string) \<Rightarrow> Column list \<Rightarrow> string list \<Rightarrow> SpecSchemaField \<Rightarrow> bool" where
  "row_violation R m columns row f =
     (case mapped_value m columns row f of None \<Rightarrow> False | Some v \<Rightarrow> invalid_value R f v)"

definition row_error :: "Recognizers \<Rightarrow> nat \<Rightarrow> SpecSchemaField \<Rightarrow> string \<Rightarrow> ValidationError" where
  "row_error R i f v =
     \<lparr>row_index = Some i, field = name f, reason = expected_reason R f v,
      message = describe R (expected_reason R f v) (name f) v\<rparr>"



section \<open>Sample inputs\<close>

definition sample_state :: AppState where
  "sample_state =
     \<lparr>schema = None, savedMappings = [], previewRows = [], currentFileId = Some ''f1'',
      currentHasHeader = True, csvColumns = [\<lparr>col_name = ''First''\<rparr>, \<lparr>col_name = ''Mail''\<rparr>],
      mapping = [''first_name'' \<mapsto> JString ''First'', ''email'' \<mapsto> JString ''Mail''],
      statusMessage = ''Auto-mapped 2 columns.''\<rparr>"

definition sample_mapping :: Mapping where
  "sample_mapping =
     [''first_name'' \<mapsto> JString ''First'', ''email'' \<mapsto> JString [], ''status'' \<mapsto> JNull]"

definition sample_suggestions :: "Suggestion list" where
  "sample_suggestions =
     [\<lparr>schema_field = ''email'', csv_column = ''E-mail'', confidence = 0.9\<rparr>,
      \<lparr>schema_field = ''status'', csv_column = ''State'', confidence = 0.49\<rparr>,
      \<lparr>schema_field = ''first_name'', csv_column = ''First'', confidence = 0.5\<rparr>]"

text \<open>
  The example of the specification's section 8, with a second bad row: one required email
  field mapped to the column \<^verbatim>\<open>E-mail\<close>, and an instance of the parameters in which a
  value is an email when it has an \<^verbatim>\<open>@\<close>.
\<close>

definition sample_recognizers :: Recognizers where
  "sample_recognizers =
     \<lparr>is_blank = (\<lambda>v. v = []),
      recognizes = (\<lambda>k v. k \<noteq> KEmail \<or> CHR ''@'' \<in> set v),
      allowed_values = (\<lambda>f. []),
      describe = (\<lambda>r f v. v),
      structural_error =
        \<lparr>row_index = None, field = [], reason = UNKNOWN_COLUMN, message = ''empty input''\<rparr>\<rparr>"

definition sample_schema :: "SpecSchemaField list" where
  "sample_schema = [\<lparr>name = ''email'', required = True, expected_kind = KEmail\<rparr>]"

definition sample_columns :: "Column list" where
  "sample_columns = [\<lparr>col_name = ''E-mail'', sample_values = [''a@b.com'', ''not-an-email'']\<rparr>]"

definition sample_engine_mapping :: "string \<rightharpoonup> string" where
  "sample_engine_mapping = [''email'' \<mapsto> ''E-mail'']"

definition sample_rows :: "string list list" where
  "sample_rows = [[''bad''], [''not-an-email'']]"

section \<open>The engine reports the violations, each once\<close>

lemma find_column_index:
  "find (\<lambda>(j, col). col_name col = c) (enumerate k columns) =
     (case column_index c columns of None \<Rightarrow> None | Some j \<Rightarrow> Some (k + j, columns ! j))"
proof (induction columns arbitrary: k)
  case Nil
  then show ?case by simp
next
  case (Cons col cols)
  show ?case
  proof (cases "col_name col = c")
    case True
    then show ?thesis by simp
  next
    case False
    then show ?thesis
      using Cons.IH [of "Suc k"] by (simp split: option.splits)
  qed
qed

lemma cell_check_invalid:
  "cell_check R f i v = (if invalid_value R f v then [row_error R i f v] else [])"
  by (simp add: cell_check_def invalid_value_def expected_reason_def row_error_def)

lemma field_row_errors_violation:
  "field_row_errors R m columns i row f =
     (case mapped_value m columns row f of
        None \<Rightarrow> []
      | Some v \<Rightarrow> if invalid_value R f v then [row_error R i f v] else [])"
  by (auto simp: field_row_errors_def mapped_value_def checked_column_def mapped_column_def
      find_column_index cell_check_invalid cell_def split: option.splits)

lemma field_row_errors_cases:
  "field_row_errors R m columns i row f =
     (if row_violation R m columns row f
      then [row_error R i f (the (mapped_value m columns row f))] else [])"
  by (simp add: field_row_errors_violation row_violation_def split: option.splits)

lemma mapping_check_violation:
  "mapping_check R m columns f =
     (if mapping_violation m columns f then [mapping_error R m f] else [])"
  by (auto simp: mapping_check_def mapping_violation_def mapped_column_def mapping_error_def
      mapping_reason_def split: option.splits)

lemma mapped_value_nonempty:
  "mapped_value m columns row g = Some v \<Longrightarrow> columns \<noteq> []"
  by (auto simp: mapped_value_def split: option.splits if_splits)

lemma concat_single:
  "distinct xs \<Longrightarrow> x \<in> set xs \<Longrightarrow> \<forall>y\<in>set xs. (g y \<noteq> []) = (y = x) \<Longrightarrow>
   concat (map g xs) = g x"
proof (induction xs)
  case Nil
  then show ?case by simp
next
  case (Cons a xs)
  show ?case
  proof (cases "a = x")
    case True
    with Cons.prems have "\<forall>y\<in>set xs. g y = []" by auto
    then have "concat (map g xs) = []" by simp
    with True show ?thesis by simp
  next
    case False
    with Cons.prems have "g a = []" and "x \<in> set xs" and "distinct xs"
      and "\<forall>y\<in>set xs. (g y \<noteq> []) = (y = x)" by auto
    with Cons.IH show ?thesis by simp
  qed
qed

lemma rows_errors_each:
  "(\<forall>j<length rows. row_errors R m columns sch (k + j) (rows ! j) = [E (k + j) (rows ! j)]) \<Longrightarrow>
   rows_errors R m columns sch k rows = map (\<lambda>j. E (k + j) (rows ! j)) [0..<length rows]"
proof (induction rows arbitrary: k)
  case Nil
  then show ?case by simp
next
  case (Cons r rs)
  from Cons.prems have "row_errors R m columns sch (k + 0) ((r # rs) ! 0) = [E (k + 0) ((r # rs) ! 0)]"
    by blast
  then have hd: "row_errors R m columns sch k r = [E k r]" by simp
  have "\<forall>j<length rs. row_errors R m columns sch (Suc k + j) (rs ! j) = [E (Suc k + j) (rs ! j)]"
  proof (intro allI impI)
    fix j assume "j < length rs"
    then have "Suc j < length (r # rs)" by simp
    with Cons.prems have "row_errors R m columns sch (k + Suc j) ((r # rs) ! Suc j) =
        [E (k + Suc j) ((r # rs) ! Suc j)]" by blast
    then show "row_errors R m columns sch (Suc k + j) (rs ! j) = [E (Suc k + j) (rs ! j)]"
      by simp
  qed
  from Cons.IH [OF this]
  have tl: "rows_errors R m columns sch (Suc k) rs =
      map (\<lambda>j. E (Suc k + j) (rs ! j)) [0..<length rs]" .
  have "[0..<length (r # rs)] = 0 # map Suc [0..<length rs]"
    by (simp add: upt_conv_Cons map_Suc_upt del: upt_Suc)
  then have "map (\<lambda>j. E (k + j) ((r # rs) ! j)) [0..<length (r # rs)] =
      E k r # map (\<lambda>j. E (Suc k + j) (rs ! j)) [0..<length rs]"
    by (simp add: o_def del: upt_Suc)
  with hd tl show ?case by simp
qed

lemma rows_errors_contains:
  "j < length rows \<Longrightarrow> g \<in> set sch \<Longrightarrow>
   set (field_row_errors R m columns (k + j) (rows ! j) g) \<subseteq> set (rows_errors R m columns sch k rows)"
proof (induction rows arbitrary: k j)
  case Nil
  then show ?case by simp
next
  case (Cons r rs)
  show ?case
  proof (cases j)
    case 0
    with Cons.prems show ?thesis by (auto simp: row_errors_def)
  next
    case (Suc j')
    with Cons.prems have "j' < length rs" by simp
    from Cons.IH [OF this Cons.prems(2), of "Suc k"] Suc show ?thesis by auto
  qed
qed

lemma length_mapping_errors:
  "length (concat (map (mapping_check R m columns) sch)) =
   length (filter (mapping_violation m columns) sch)"
  by (induction sch) (simp_all add: mapping_check_violation)

lemma length_row_errors:
  "length (row_errors R m columns sch i row) =
   length (filter (row_violation R m columns row) sch)"
  unfolding row_errors_def
  by (induction sch) (simp_all add: field_row_errors_cases)

lemma length_rows_errors:
  "length (rows_errors R m columns sch k rows) =
   sum_list (map (\<lambda>row. length (filter (row_violation R m columns row) sch)) rows)"
  by (induction rows arbitrary: k) (simp_all add: length_row_errors)

lemma validate_error_count:
  "length (result_errors (validate R m columns rows sch)) =
     (if columns = [] \<or> sch = [] then 1
      else length (filter (mapping_violation m columns) sch) +
           sum_list (map (\<lambda>row. length (filter (row_violation R m columns row) sch)) rows))"
  by (simp add: validate_def Let_def length_mapping_errors length_rows_errors)

lemma mapping_violation_reported:
  assumes "columns \<noteq> []" and "g \<in> set sch" and "mapping_violation m columns g"
  shows "mapping_error R m g \<in> set (result_errors (validate R m columns rows sch))"
proof -
  from assms(2) have "sch \<noteq> []" by auto
  from assms(3) have "mapping_check R m columns g = [mapping_error R m g]"
    by (simp add: mapping_check_violation)
  with assms(2) have "mapping_error R m g \<in> set (concat (map (mapping_check R m columns) sch))"
    by force
  with assms(1) \<open>sch \<noteq> []\<close> show ?thesis
    by (simp add: validate_def Let_def)
qed

lemma row_violation_reported:
  assumes "i < length rows" and "g \<in> set sch"
    and "mapped_value m columns (rows ! i) g = Some v" and "invalid_value R g v"
  shows "row_error R i g v \<in> set (result_errors (validate R m columns rows sch))"
proof -
  from assms(2) have sch: "sch \<noteq> []" by auto
  from assms(3) have cols: "columns \<noteq> []" by (rule mapped_value_nonempty)
  from assms(3,4) have "field_row_errors R m columns i (rows ! i) g = [row_error R i g v]"
    by (simp add: field_row_errors_violation)
  with rows_errors_contains [OF assms(1,2), of R m columns 0]
  have "row_error R i g v \<in> set (rows_errors R m columns sch 0 rows)" by simp
  with sch cols show ?thesis
    by (simp add: validate_def Let_def)
qed

lemma validate_bad_rows:
  assumes names: "distinct (map name sch)" and f: "f \<in> set sch"
    and mapped: "m (name f) = Some c" "c \<noteq> []" "c \<in> set (map col_name columns)"
    and clean: "\<forall>g\<in>set sch. \<not> mapping_violation m columns g"
    and one: "\<forall>i<length rows. \<forall>g\<in>set sch. row_violation R m columns (rows ! i) g = (g = f)"
  shows "result_errors (validate R m columns rows sch) =
           map (\<lambda>i. row_error R i f (the (mapped_value m columns (rows ! i) f))) [0..<length rows]"
proof -
  from names have dist: "distinct sch" by (simp add: distinct_map)
  from f have sch: "sch \<noteq> []" by auto
  from mapped(3) have cols: "columns \<noteq> []" by auto
  from clean have none: "concat (map (mapping_check R m columns) sch) = []"
    by (simp add: mapping_check_violation)
  have each: "\<forall>j<length rows. row_errors R m columns sch (0 + j) (rows ! j) =
      [row_error R (0 + j) f (the (mapped_value m columns (rows ! j) f))]"
  proof (intro allI impI)
    fix j assume j: "j < length rows"
    with one have *: "\<forall>g\<in>set sch. row_violation R m columns (rows ! j) g = (g = f)"
      by blast
    then have **: "\<forall>g\<in>set sch. (field_row_errors R m columns j (rows ! j) g \<noteq> []) = (g = f)"
      by (simp add: field_row_errors_cases)
    from concat_single [OF dist f **]
    have "row_errors R m columns sch j (rows ! j) = field_row_errors R m columns j (rows ! j) f"
      by (simp add: row_errors_def)
    moreover from * f have "row_violation R m columns (rows ! j) f" by blast
    ultimately show "row_errors R m columns sch (0 + j) (rows ! j) =
      [row_error R (0 + j) f (the (mapped_value m columns (rows ! j) f))]"
      by (simp add: field_row_errors_cases)
  qed
  from rows_errors_each [of rows R m columns sch 0
      "\<lambda>i row. row_error R i f (the (mapped_value m columns row f))", OF each]
  have "rows_errors R m columns sch 0 rows =
      map (\<lambda>i. row_error R i f (the (mapped_value m columns (rows ! i) f))) [0..<length rows]"
    by simp
  with none sch cols show ?thesis
    by (simp add: validate_def Let_def)
qed



section \<open>The shape of a validation result\<close>

lemma validate_spec_example:
  "validate sample_recognizers sample_engine_mapping sample_columns
     [[''a@b.com''], [''not-an-email'']] sample_schema =
   \<lparr>result_is_valid = False,
    result_errors = [\<lparr>row_index = Some 1, field = ''email'', reason = INVALID_FORMAT,
                      message = ''not-an-email''\<rparr>]\<rparr>"
  by (simp add: validate_def row_errors_def field_row_errors_def checked_column_def
      mapped_column_def mapping_check_def cell_check_def cell_def sample_recognizers_def
      sample_engine_mapping_def sample_columns_def sample_schema_def)




section \<open>The validation engine accumulates every violation\<close>

text \<open>
  C2. On the engine of the specification, for every mapping, columns, rows and schema:
  \<open>is_valid\<close> holds exactly when the error list is empty; for every row and every field
  that has a raw value in the row, when that value is a violation the error for it (that
  row's index, the field, the reason of the violation, the message) is in the returned
  list, wherever the first error was (and, the column list not being empty, so is the error
  of every field with a mapping-level violation); and when the field \<open>f\<close> is mapped to a
  column of the file, no field has a mapping-level violation and in each of the N data rows
  the value of \<open>f\<close> is the only violation, the returned list is exactly the N errors of
  \<open>f\<close>, the one of row \<open>i\<close> at position \<open>i\<close> with \<open>row_index = i\<close>.
\<close>

theorem validate_accumulates:
  "result_is_valid (validate R m columns rows sch) =
     (result_errors (validate R m columns rows sch) = []) \<and>
   (\<forall>i<length rows. \<forall>g\<in>set sch. \<forall>v.
      mapped_value m columns (rows ! i) g = Some v \<and> invalid_value R g v \<longrightarrow>
      row_error R i g v \<in> set (result_errors (validate R m columns rows sch))) \<and>
   (columns \<noteq> [] \<longrightarrow>
      (\<forall>g\<in>set sch. mapping_violation m columns g \<longrightarrow>
         mapping_error R m g \<in> set (result_errors (validate R m columns rows sch)))) \<and>
   (distinct (map name sch) \<and> f \<in> set sch \<and>
    m (name f) = Some c \<and> c \<noteq> [] \<and> c \<in> set (map col_name columns) \<and>
    (\<forall>g\<in>set sch. \<not> mapping_violation m columns g) \<and>
    (\<forall>i<length rows. \<forall>g\<in>set sch. row_violation R m columns (rows ! i) g = (g = f)) \<longrightarrow>
    result_errors (validate R m columns rows sch) =
      map (\<lambda>i. row_error R i f (the (mapped_value m columns (rows ! i) f))) [0..<length rows] \<and>
    length (result_errors (validate R m columns rows sch)) = length rows \<and>
    map row_index (result_errors (validate R m columns rows sch)) = map Some [0..<length rows] \<and>
    (\<forall>e\<in>set (result_errors (validate R m columns rows sch)). field e = name f))"
proof (intro conjI)
  show "result_is_valid (validate R m columns rows sch) =
     (result_errors (validate R m columns rows sch) = [])"
    by (simp add: validate_def Let_def)
  show "\<forall>i<length rows. \<forall>g\<in>set sch. \<forall>v.
      mapped_value m columns (rows ! i) g = Some v \<and> invalid_value R g v \<longrightarrow>
      row_error R i g v \<in> set (result_errors (validate R m columns rows sch))"
    using row_violation_reported by blast
  show "columns \<noteq> [] \<longrightarrow>
      (\<forall>g\<in>set sch. mapping_violation m columns g \<longrightarrow>
         mapping_error R m g \<in> set (result_errors (validate R m columns rows sch)))"
    using mapping_violation_reported by blast
  show "distinct (map name sch) \<and> f \<in> set sch \<and>
    m (name f) = Some c \<and> c \<noteq> [] \<and> c \<in> set (map col_name columns) \<and>
    (\<forall>g\<in>set sch. \<not> mapping_violation m columns g) \<and>
    (\<forall>i<length rows. \<forall>g\<in>set sch. row_violation R m columns (rows ! i) g = (g = f)) \<longrightarrow>
    result_errors (validate R m columns rows sch) =
      map (\<lambda>i. row_error R i f (the (mapped_value m columns (rows ! i) f))) [0..<length rows] \<and>
    length (result_errors (validate R m columns rows sch)) = length rows \<and>
    map row_index (result_errors (validate R m columns rows sch)) = map Some [0..<length rows] \<and>
    (\<forall>e\<in>set (result_errors (validate R m columns rows sch)). field e = name f)"
  proof
    assume h: "distinct (map name sch) \<and> f \<in> set sch \<and>
      m (name f) = Some c \<and> c \<noteq> [] \<and> c \<in> set (map col_name columns) \<and>
      (\<forall>g\<in>set sch. \<not> mapping_violation m columns g) \<and>
      (\<forall>i<length rows. \<forall>g\<in>set sch. row_violation R m columns (rows ! i) g = (g = f))"
    then have eq: "result_errors (validate R m columns rows sch) =
      map (\<lambda>i. row_error R i f (the (mapped_value m columns (rows ! i) f))) [0..<length rows]"
      using validate_bad_rows [of sch f m c columns rows R] by blast
    have idx: "map row_index
        (map (\<lambda>i. row_error R i f (the (mapped_value m columns (rows ! i) f))) [0..<length rows]) =
      map Some [0..<length rows]"
      by (simp add: row_error_def o_def)
    show "result_errors (validate R m columns rows sch) =
      map (\<lambda>i. row_error R i f (the (mapped_value m columns (rows ! i) f))) [0..<length rows] \<and>
      length (result_errors (validate R m columns rows sch)) = length rows \<and>
      map row_index (result_errors (validate R m columns rows sch)) = map Some [0..<length rows] \<and>
      (\<forall>e\<in>set (result_errors (validate R m columns rows sch)). field e = name f)"
      unfolding eq using idx by (auto simp: row_error_def)
  qed
qed

theorem validate_accumulates_witness:
  "length sample_rows = 2 \<and>
   mapped_value sample_engine_mapping sample_columns (sample_rows ! 1)
     \<lparr>name = ''email'', required = True, expected_kind = KEmail\<rparr> = Some ''not-an-email'' \<and>
   invalid_value sample_recognizers
     \<lparr>name = ''email'', required = True, expected_kind = KEmail\<rparr> ''not-an-email'' \<and>
   result_errors
      (validate sample_recognizers sample_engine_mapping sample_columns sample_rows sample_schema) =
     [\<lparr>row_index = Some 0, field = ''email'', reason = INVALID_FORMAT, message = ''bad''\<rparr>,
      \<lparr>row_index = Some 1, field = ''email'', reason = INVALID_FORMAT, message = ''not-an-email''\<rparr>] \<and>
   map row_index (result_errors
      (validate sample_recognizers sample_engine_mapping sample_columns sample_rows sample_schema))
     = [Some 0, Some 1] \<and>
   \<not> result_is_valid
      (validate sample_recognizers sample_engine_mapping sample_columns sample_rows sample_schema)"
proof -
  have h: "distinct (map name sample_schema) \<and>
   \<lparr>name = ''email'', required = True, expected_kind = KEmail\<rparr> \<in> set sample_schema \<and>
   sample_engine_mapping ''email'' = Some ''E-mail'' \<and> ''E-mail'' \<noteq> [] \<and>
   ''E-mail'' \<in> set (map col_name sample_columns) \<and>
   (\<forall>g\<in>set sample_schema. \<not> mapping_violation sample_engine_mapping sample_columns g) \<and>
   (\<forall>i<length sample_rows. \<forall>g\<in>set sample_schema.
       row_violation sample_recognizers sample_engine_mapping sample_columns (sample_rows ! i) g =
       (g = \<lparr>name = ''email'', required = True, expected_kind = KEmail\<rparr>))"
    by (simp add: sample_schema_def sample_rows_def sample_columns_def
        sample_engine_mapping_def sample_recognizers_def mapping_violation_def
        row_violation_def mapped_value_def invalid_value_def All_less_Suc2)
  have v: "mapped_value sample_engine_mapping sample_columns (sample_rows ! 0)
       \<lparr>name = ''email'', required = True, expected_kind = KEmail\<rparr> = Some ''bad'' \<and>
     mapped_value sample_engine_mapping sample_columns (sample_rows ! 1)
       \<lparr>name = ''email'', required = True, expected_kind = KEmail\<rparr> = Some ''not-an-email'' \<and>
     invalid_value sample_recognizers
       \<lparr>name = ''email'', required = True, expected_kind = KEmail\<rparr> ''not-an-email''"
    by (simp add: sample_rows_def sample_columns_def sample_engine_mapping_def
        sample_recognizers_def mapped_value_def invalid_value_def)
  have r: "row_error sample_recognizers 0
       \<lparr>name = ''email'', required = True, expected_kind = KEmail\<rparr> ''bad'' =
       \<lparr>row_index = Some 0, field = ''email'', reason = INVALID_FORMAT, message = ''bad''\<rparr> \<and>
     row_error sample_recognizers (Suc 0)
       \<lparr>name = ''email'', required = True, expected_kind = KEmail\<rparr> ''not-an-email'' =
       \<lparr>row_index = Some 1, field = ''email'', reason = INVALID_FORMAT, message = ''not-an-email''\<rparr>"
    by (simp add: row_error_def expected_reason_def sample_recognizers_def)
  have n: "length sample_rows = 2" by (simp add: sample_rows_def)
  have u: "[0..<2] = [0, Suc 0]" by (simp add: upt_conv_Cons)
  from h v r n u
    validate_accumulates [of sample_recognizers sample_engine_mapping sample_columns
      sample_rows sample_schema "\<lparr>name = ''email'', required = True, expected_kind = KEmail\<rparr>"
      "''E-mail''"]
  show ?thesis by auto
qed

section \<open>Auto-suggest applies the confident suggestions\<close>

lemma suggest_loop_lookup:
  "k \<noteq> ''__proto__'' \<Longrightarrow>
   fst (suggest_loop ss (m, n)) k =
     (case filter (\<lambda>x. schema_field x = k \<and> schema_field x \<noteq> [] \<and> 0.5 \<le> confidence x) ss of
        [] \<Rightarrow> m k
      | xs \<Rightarrow> Some (JString (csv_column (last xs))))"
proof (induction ss arbitrary: m n)
  case Nil
  then show ?case by simp
next
  case (Cons a ss)
  then show ?case
    by (simp add: assign_string_def split: list.split)
qed

lemma suggest_loop_count:
  "snd (suggest_loop ss (m, n)) =
   n + length (filter (\<lambda>x. schema_field x \<noteq> [] \<and> 0.5 \<le> confidence x) ss)"
  by (induction ss arbitrary: m n) simp_all

lemma filter_distinct_key:
  "distinct (map f xs) \<Longrightarrow> x \<in> set xs \<Longrightarrow>
   filter (\<lambda>y. f y = f x \<and> P y) xs = (if P x then [x] else [])"
proof (induction xs)
  case Nil
  then show ?case by simp
next
  case (Cons a xs)
  show ?case
  proof (cases "a = x")
    case True
    from Cons.prems(1) have "f a \<notin> f ` set xs" by simp
    with True have "\<forall>y\<in>set xs. f y \<noteq> f x" by (metis imageI)
    then have "filter (\<lambda>y. f y = f x \<and> P y) xs = []" by (simp add: filter_empty_conv)
    with True show ?thesis by simp
  next
    case False
    with Cons.prems have "x \<in> set xs" and "f a \<noteq> f x" by auto
    with Cons show ?thesis by simp
  qed
qed

lemma mapping_handleAutoSuggest:
  "mapping (handleAutoSuggest (Inr \<lparr>suggestions = Some ss\<rparr>) st) =
   fst (suggest_loop ss (Map.empty, 0))"
  by (simp add: handleAutoSuggest_def setMapping_def setStatusMessage_def or_empty_def
      split: prod.split)

lemma suggest_loop_proto:
  "fst (suggest_loop ss (m, n)) ''__proto__'' = m ''__proto__''"
  by (induction ss arbitrary: m n) (simp_all add: assign_string_def)

text \<open>
  C4, as the claim states it, fails. The threshold is not configurable: the response
  \<open>sample_suggestions\<close> has a suggestion for \<^verbatim>\<open>status\<close> with confidence 0.49, and
  there is no state of the application, whatever its props, state and settings, in which
  \<^verbatim>\<open>handleAutoSuggest\<close> applies it. And a suggestion for a field named
  \<^verbatim>\<open>__proto__\<close> passes the test and is not written.
\<close>

theorem threshold_not_configurable:
  "\<not> (\<exists>st. mapping (handleAutoSuggest (Inr \<lparr>suggestions = Some sample_suggestions\<rparr>) st) ''status''
          \<noteq> None) \<and>
   mapping (handleAutoSuggest
      (Inr \<lparr>suggestions = Some [\<lparr>schema_field = ''__proto__'', csv_column = ''A'', confidence = 0.9\<rparr>]\<rparr>)
      sample_state) ''__proto__'' = None"
  by (simp add: handleAutoSuggest_def setMapping_def setStatusMessage_def or_empty_def
      sample_suggestions_def assign_string_def)

text \<open>
  C4, amended. Given a suggestion list with one suggestion per schema field, none named
  \<^verbatim>\<open>__proto__\<close>, \<^verbatim>\<open>handleAutoSuggest\<close> leaves the suggestion's \<open>csv_column\<close> in
  the mapping under its \<open>schema_field\<close> exactly when the \<open>schema_field\<close> is not empty
  and the confidence is at least 0.5, and leaves the field of a suggestion that fails the
  test unmapped. For any list, the mapping holds under a key the column of the last
  suggestion for that key that passes the test. The threshold is the literal 0.5 of the
  handler, a policy of this consumer: the mapping that results is the same in every state
  of the application, so no prop, state or setting changes it.
\<close>

theorem handleAutoSuggest_applies_confident:
  "(distinct (map schema_field ss) \<and> s \<in> set ss \<and> schema_field s \<noteq> ''__proto__'' \<longrightarrow>
      (mapping (handleAutoSuggest (Inr \<lparr>suggestions = Some ss\<rparr>) st) (schema_field s)
         = Some (JString (csv_column s)))
      = (schema_field s \<noteq> [] \<and> 0.5 \<le> confidence s) \<and>
      mapping (handleAutoSuggest (Inr \<lparr>suggestions = Some ss\<rparr>) st) (schema_field s)
         = (if schema_field s \<noteq> [] \<and> 0.5 \<le> confidence s
            then Some (JString (csv_column s)) else None)) \<and>
   mapping (handleAutoSuggest (Inr \<lparr>suggestions = Some ss\<rparr>) st) k =
     (if k = ''__proto__'' then None
      else case filter (\<lambda>x. schema_field x = k \<and> schema_field x \<noteq> [] \<and> 0.5 \<le> confidence x) ss of
             [] \<Rightarrow> None
           | xs \<Rightarrow> Some (JString (csv_column (last xs)))) \<and>
   mapping (handleAutoSuggest (Inr data) st) = mapping (handleAutoSuggest (Inr data) st')"
proof (intro conjI impI)
  let ?ok = "\<lambda>x. schema_field x \<noteq> [] \<and> 0.5 \<le> confidence x"
  assume h: "distinct (map schema_field ss) \<and> s \<in> set ss \<and> schema_field s \<noteq> ''__proto__''"
  then have "filter (\<lambda>y. schema_field y = schema_field s \<and> ?ok y) ss = (if ?ok s then [s] else [])"
    using filter_distinct_key [of schema_field ss s ?ok] by blast
  with h have *: "fst (suggest_loop ss (Map.empty, 0)) (schema_field s) =
      (if ?ok s then Some (JString (csv_column s)) else None)"
    by (simp add: suggest_loop_lookup)
  from * show "(mapping (handleAutoSuggest (Inr \<lparr>suggestions = Some ss\<rparr>) st) (schema_field s)
         = Some (JString (csv_column s)))
      = (schema_field s \<noteq> [] \<and> 0.5 \<le> confidence s)"
    by (simp add: mapping_handleAutoSuggest)
  from * show "mapping (handleAutoSuggest (Inr \<lparr>suggestions = Some ss\<rparr>) st) (schema_field s)
         = (if schema_field s \<noteq> [] \<and> 0.5 \<le> confidence s
            then Some (JString (csv_column s)) else None)"
    by (simp add: mapping_handleAutoSuggest)
next
  show "mapping (handleAutoSuggest (Inr \<lparr>suggestions = Some ss\<rparr>) st) k =
     (if k = ''__proto__'' then None
      else case filter (\<lambda>x. schema_field x = k \<and> schema_field x \<noteq> [] \<and> 0.5 \<le> confidence x) ss of
             [] \<Rightarrow> None
           | xs \<Rightarrow> Some (JString (csv_column (last xs))))"
    by (simp add: mapping_handleAutoSuggest suggest_loop_lookup suggest_loop_proto)
next
  show "mapping (handleAutoSuggest (Inr data) st) = mapping (handleAutoSuggest (Inr data) st')"
    by (simp add: handleAutoSuggest_def setMapping_def setStatusMessage_def split: prod.split)
qed

theorem handleAutoSuggest_applies_confident_witness:
  "mapping (handleAutoSuggest (Inr \<lparr>suggestions = Some sample_suggestions\<rparr>) sample_state) ''email''
     = Some (JString ''E-mail'') \<and>
   mapping (handleAutoSuggest (Inr \<lparr>suggestions = Some sample_suggestions\<rparr>) sample_state) ''status''
     = None \<and>
   mapping (handleAutoSuggest (Inr \<lparr>suggestions = Some sample_suggestions\<rparr>) sample_state) ''first_name''
     = Some (JString ''First'')"
  using
    handleAutoSuggest_applies_confident [of sample_suggestions
      "\<lparr>schema_field = ''email'', csv_column = ''E-mail'', confidence = 0.9\<rparr>" sample_state]
    handleAutoSuggest_applies_confident [of sample_suggestions
      "\<lparr>schema_field = ''status'', csv_column = ''State'', confidence = 0.49\<rparr>" sample_state]
    handleAutoSuggest_applies_confident [of sample_suggestions
      "\<lparr>schema_field = ''first_name'', csv_column = ''First'', confidence = 0.5\<rparr>" sample_state]
  by (simp add: sample_suggestions_def)

section \<open>The validation report caps what it displays, the engine does not\<close>

text \<open>
  C5. The engine of the specification never truncates: its error list has exactly one
  entry per mapping-level violation of a field and per violation of a field in a row,
  however many these are (and the one structural error for an empty schema or column list).
  For every error list, \<^verbatim>\<open>ValidationReport\<close> lists its first 100 entries in their
  order (all of them when there are fewer), states the total count in the header, and closes
  with the count of the remaining entries exactly when there are more than 100. The list it
  gets is the response's list as it came: \<^verbatim>\<open>handleValidate\<close> stores it whole.
\<close>

theorem ValidationReport_caps_display:
  "report_items (ValidationReport errs) = take 100 errs \<and>
   length (report_items (ValidationReport errs)) = min (length errs) 100 \<and>
   report_header (ValidationReport errs) =
     ''Validation Failed: '' @ string_of_nat (length errs) @
     (if length errs = 1 then '' error found'' else '' errors found'') \<and>
   report_more (ValidationReport errs) =
     (if 100 < length errs
      then Some (''... and '' @ string_of_nat (length errs - 100) @ '' more errors.'')
      else None) \<and>
   errorList (handleValidate (Inr \<lparr>is_valid = False, errors = Some errs\<rparr>) st) = errs \<and>
   ActionPanel_report (handleValidate (Inr \<lparr>is_valid = False, errors = Some errs\<rparr>) st) =
     (if errs = [] then None else Some (ValidationReport errs)) \<and>
   length (result_errors (validate R m columns rows sch)) =
     (if columns = [] \<or> sch = [] then 1
      else length (filter (mapping_violation m columns) sch) +
           sum_list (map (\<lambda>row. length (filter (row_violation R m columns row) sch)) rows))"
proof -
  have more: "100 < length errs \<Longrightarrow> nat (int (length errs) - 100) = length errs - 100"
    by simp
  have ui: "report_items (ValidationReport errs) = take 100 errs \<and>
   length (report_items (ValidationReport errs)) = min (length errs) 100 \<and>
   report_header (ValidationReport errs) =
     ''Validation Failed: '' @ string_of_nat (length errs) @
     (if length errs = 1 then '' error found'' else '' errors found'') \<and>
   report_more (ValidationReport errs) =
     (if 100 < length errs
      then Some (''... and '' @ string_of_nat (length errs - 100) @ '' more errors.'')
      else None) \<and>
   errorList (handleValidate (Inr \<lparr>is_valid = False, errors = Some errs\<rparr>) st) = errs \<and>
   ActionPanel_report (handleValidate (Inr \<lparr>is_valid = False, errors = Some errs\<rparr>) st) =
     (if errs = [] then None else Some (ValidationReport errs))"
    by (simp add: ValidationReport_def MAX_DISPLAY_def Let_def string_of_int_def more
        handleValidate_def or_empty_def ActionPanel_report_def min_def)
  with validate_error_count [of R m columns rows sch] show ?thesis by blast
qed

theorem ValidationReport_caps_display_witness:
  "length (report_items (ValidationReport (replicate 101 ''e''))) = 100 \<and>
   report_header (ValidationReport (replicate 101 ''e'')) = ''Validation Failed: 101 errors found'' \<and>
   report_more (ValidationReport (replicate 101 ''e'')) = Some ''... and 1 more errors.'' \<and>
   length (result_errors
      (validate sample_recognizers sample_engine_mapping sample_columns
         (replicate 101 [''bad'']) sample_schema)) = 101"
  using ValidationReport_caps_display [of "replicate 101 ''e''" _ sample_recognizers
      sample_engine_mapping sample_columns "replicate 101 [''bad'']" sample_schema]
  by (simp add: string_of_nat.simps digit_char_def sample_recognizers_def
      sample_engine_mapping_def sample_columns_def sample_schema_def mapping_violation_def
      row_violation_def mapped_value_def invalid_value_def sum_list_replicate)

section \<open>What the senders transmit\<close>

lemma filter_entries_nonempty:
  "(filter_entries nonempty_entry m k = Some v) = (m k = Some v \<and> v \<noteq> JNull \<and> v \<noteq> JString [])"
  by (auto simp: filter_entries_def nonempty_entry_def split: option.splits)

text \<open>
  C6. The mapping argument of the validate-mapping call, of the mapping save and of the
  data ingest binds a key to a value exactly when the current mapping binds that key to that
  value and the value is neither null nor the empty string: unmapped fields are left out,
  not sent as empty strings.
\<close>

theorem sent_mapping_omits_unmapped:
  "(sent_mapping (handleValidate_call fileId hasHeader m) k = Some v) =
     (m k = Some v \<and> v \<noteq> JNull \<and> v \<noteq> JString []) \<and>
   (sent_mapping (handleSaveMapping_call mappingName m) k = Some v) =
     (m k = Some v \<and> v \<noteq> JNull \<and> v \<noteq> JString []) \<and>
   (sent_mapping (handleSaveData_call fileId hasHeader m) k = Some v) =
     (m k = Some v \<and> v \<noteq> JNull \<and> v \<noteq> JString [])"
  by (simp add: handleValidate_call_def handleSaveMapping_call_def handleSaveData_call_def
      filter_entries_nonempty)

theorem sent_mapping_omits_unmapped_witness:
  "sent_mapping (handleValidate_call ''f1'' True sample_mapping) ''first_name'' = Some (JString ''First'') \<and>
   sent_mapping (handleValidate_call ''f1'' True sample_mapping) ''email'' \<noteq> Some (JString []) \<and>
   sent_mapping (handleSaveMapping_call ''m'' sample_mapping) ''status'' \<noteq> Some JNull \<and>
   sent_mapping (handleSaveData_call ''f1'' True sample_mapping) ''first_name'' = Some (JString ''First'')"
  using sent_mapping_omits_unmapped [of "''f1''" True sample_mapping "''first_name''" "JString ''First''" "''m''"]
    sent_mapping_omits_unmapped [of "''f1''" True sample_mapping "''email''" "JString []" "''m''"]
    sent_mapping_omits_unmapped [of "''f1''" True sample_mapping "''status''" JNull "''m''"]
  by (simp add: sample_mapping_def)

section \<open>Frame of a mapping edit\<close>

text \<open>
  C8. \<^verbatim>\<open>updateMapping(f, c)\<close> maps \<open>f\<close> to \<open>c\<close>, leaves the entry of every other
  schema field as it was (present or absent), so the keys are those of before together with
  \<open>f\<close>, and touches no other part of the state. The select of the mapping table makes
  exactly this call for its row's field.
\<close>

theorem updateMapping_frame:
  "mapping (updateMapping f c st) f = Some (JString c) \<and>
   (\<forall>g. g \<noteq> f \<longrightarrow> mapping (updateMapping f c st) g = mapping st g) \<and>
   dom (mapping (updateMapping f c st)) = insert f (dom (mapping st)) \<and>
   updateMapping f c st = st\<lparr>mapping := mapping (updateMapping f c st)\<rparr> \<and>
   onChange fd c st = updateMapping (name fd) c st"
  by (simp add: updateMapping_def setMapping_def onChange_def)

theorem updateMapping_frame_witness:
  "mapping (updateMapping ''email'' ''E-mail'' sample_state) ''email'' = Some (JString ''E-mail'') \<and>
   mapping (updateMapping ''email'' ''E-mail'' sample_state) ''first_name'' = Some (JString ''First'') \<and>
   mapping (updateMapping ''email'' ''E-mail'' sample_state) ''status'' = None"
  using updateMapping_frame [of "''email''" "''E-mail''" sample_state]
  by (simp add: sample_state_def)

section \<open>A new upload starts from the empty mapping\<close>

text \<open>
  C9. \<^verbatim>\<open>handleUploadComplete\<close> first sets the mapping to the empty object (the file id
  is still the old one at that point), then records the new file id and header flag; in
  the resulting state no key of the mapping is bound, whatever the mapping was before, and
  nothing else of the state changes. The auto-suggest run that follows builds the mapping
  from the suggestions alone, and leaves it empty when the request fails.
\<close>

theorem handleUploadComplete_resets_mapping:
  "mapping (setMapping Map.empty st) = Map.empty \<and>
   currentFileId (setMapping Map.empty st) = currentFileId st \<and>
   mapping (handleUploadComplete fileId hasHeader st) = Map.empty \<and>
   dom (mapping (handleUploadComplete fileId hasHeader st)) = {} \<and>
   handleUploadComplete fileId hasHeader st =
     st\<lparr>currentFileId := Some fileId, currentHasHeader := hasHeader, mapping := Map.empty\<rparr> \<and>
   mapping (handleAutoSuggest (Inl e) (handleUploadComplete fileId hasHeader st)) = Map.empty \<and>
   mapping (handleAutoSuggest (Inr data) (handleUploadComplete fileId hasHeader st)) =
     fst (suggest_loop (or_empty (suggestions data)) (Map.empty, 0))"
  by (simp add: handleUploadComplete_def handleAutoSuggest_def setMapping_def
      setCurrentFileId_def setCurrentHasHeader_def setStatusMessage_def split: prod.split)

theorem handleUploadComplete_resets_mapping_witness:
  "mapping (handleUploadComplete ''f2'' False sample_state) ''email'' = None \<and>
   mapping sample_state ''email'' = Some (JString ''Mail'') \<and>
   currentFileId (handleUploadComplete ''f2'' False sample_state) = Some ''f2''"
  using handleUploadComplete_resets_mapping [of sample_state "''f2''" False]
  by (simp add: sample_state_def)

section \<open>The default name of a saved mapping\<close>

text \<open>
  C10. When the entered name trims to the empty string, \<^verbatim>\<open>handleSaveMapping\<close> still
  makes the save call, with the name \<^verbatim>\<open>Unnamed mapping\<close> and the filtered mapping; and
  whatever was entered, the name it sends is not empty.
\<close>

theorem handleSaveMapping_default_name:
  assumes "trim mappingName = []"
  shows "handleSaveMapping_call mappingName m =
           saveMapping ''Unnamed mapping'' (filter_entries nonempty_entry m) \<and>
         sent_name (handleSaveMapping_call mappingName m) = Some ''Unnamed mapping'' \<and>
         sent_name (handleSaveMapping_call other m) \<noteq> Some []"
  using assms by (simp add: handleSaveMapping_call_def or_default_def)

theorem handleSaveMapping_default_name_witness:
  "trim [CHR '' '', CHR 0x09, CHR '' ''] = [] \<and>
   sent_name (handleSaveMapping_call [CHR '' '', CHR 0x09, CHR '' ''] sample_mapping) =
     Some ''Unnamed mapping''"
proof -
  have blank: "trim [CHR '' '', CHR 0x09, CHR '' ''] = []"
    by (simp add: trim_def is_whitespace_def)
  show ?thesis
    using blank handleSaveMapping_default_name [OF blank, of sample_mapping] by simp
qed

section \<open>Further properties of the handlers\<close>

text \<open>
  The status line after an auto-suggest run reports how many suggestions passed the test,
  or that none did.
\<close>

theorem handleAutoSuggest_status_counts:
  "statusMessage (handleAutoSuggest (Inr \<lparr>suggestions = Some ss\<rparr>) st) =
     (if 0 < length (filter (\<lambda>x. schema_field x \<noteq> [] \<and> 0.5 \<le> confidence x) ss)
      then ''Auto-mapped '' @
           string_of_nat (length (filter (\<lambda>x. schema_field x \<noteq> [] \<and> 0.5 \<le> confidence x) ss)) @
           '' columns.''
      else ''No confident matches found.'') \<and>
   statusMessage (handleAutoSuggest (Inl e) st) = ''Failed to auto-suggest.''"
proof -
  obtain nm c where loop: "suggest_loop ss (Map.empty, 0) = (nm, c)"
    by (cases "suggest_loop ss (Map.empty, 0)")
  have "snd (suggest_loop ss (Map.empty, 0)) =
      length (filter (\<lambda>x. schema_field x \<noteq> [] \<and> 0.5 \<le> confidence x) ss)"
    by (simp add: suggest_loop_count)
  with loop have c: "c = length (filter (\<lambda>x. schema_field x \<noteq> [] \<and> 0.5 \<le> confidence x) ss)"
    by simp
  show ?thesis
    unfolding handleAutoSuggest_def or_empty_def
    by (simp add: loop c setStatusMessage_def setMapping_def)
qed

theorem handleAutoSuggest_status_counts_witness:
  "statusMessage (handleAutoSuggest (Inr \<lparr>suggestions = Some sample_suggestions\<rparr>) sample_state) =
     ''Auto-mapped 2 columns.''"
  using handleAutoSuggest_status_counts [of sample_suggestions sample_state]
  by (simp add: sample_suggestions_def string_of_nat.simps digit_char_def)

text \<open>
  When a response repeats a schema field, the last of its suggestions that passes the test
  is the one left in the mapping.
\<close>

theorem handleAutoSuggest_last_wins:
  assumes "k \<noteq> ''__proto__''"
  shows "mapping (handleAutoSuggest (Inr \<lparr>suggestions = Some ss\<rparr>) st) k =
     (case filter (\<lambda>x. schema_field x = k \<and> schema_field x \<noteq> [] \<and> 0.5 \<le> confidence x) ss of
        [] \<Rightarrow> None
      | xs \<Rightarrow> Some (JString (csv_column (last xs))))"
  using assms by (simp add: mapping_handleAutoSuggest suggest_loop_lookup)

theorem handleAutoSuggest_last_wins_witness:
  "mapping (handleAutoSuggest
      (Inr \<lparr>suggestions = Some
         [\<lparr>schema_field = ''email'', csv_column = ''A'', confidence = 0.9\<rparr>,
          \<lparr>schema_field = ''email'', csv_column = ''B'', confidence = 0.6\<rparr>,
          \<lparr>schema_field = ''email'', csv_column = ''C'', confidence = 0.1\<rparr>]\<rparr>)
      sample_state) ''email'' = Some (JString ''B'')"
  using handleAutoSuggest_last_wins [of "''email''"
      "[\<lparr>schema_field = ''email'', csv_column = ''A'', confidence = 0.9\<rparr>,
        \<lparr>schema_field = ''email'', csv_column = ''B'', confidence = 0.6\<rparr>,
        \<lparr>schema_field = ''email'', csv_column = ''C'', confidence = 0.1\<rparr>]" sample_state]
  by simp

text \<open>
  The panel shows a report only for a response that is not valid and has at least one
  error, and for a failed call; a valid response, and an invalid one with an empty error
  list, show none.
\<close>

theorem ActionPanel_report_shown:
  "ActionPanel_report (handleValidate (Inr \<lparr>is_valid = True, errors = es\<rparr>) st) = None \<and>
   ActionPanel_report (handleValidate (Inr \<lparr>is_valid = False, errors = Some []\<rparr>) st) = None \<and>
   ActionPanel_report (handleValidate (Inr \<lparr>is_valid = False, errors = None\<rparr>) st) = None \<and>
   ActionPanel_report (handleValidate (Inr \<lparr>is_valid = False, errors = Some (x # xs)\<rparr>) st) =
     Some (ValidationReport (x # xs)) \<and>
   ActionPanel_report (handleValidate (Inl e) st) =
     Some (ValidationReport [''System error: Failed to connect to validation service.''])"
  by (simp add: ActionPanel_report_def handleValidate_def or_empty_def)

text \<open>
  Choosing the option \<^verbatim>\<open>-- Not mapped --\<close> in the row of a field stores the empty
  string under the field's name; the senders then leave the field out.
\<close>

theorem not_mapped_is_omitted:
  "mapping (onChange fd [] st) (name fd) = Some (JString []) \<and>
   sent_mapping (handleValidate_call fileId hasHeader (mapping (onChange fd [] st))) (name fd) = None \<and>
   sent_mapping (handleSaveMapping_call mappingName (mapping (onChange fd [] st))) (name fd) = None \<and>
   sent_mapping (handleSaveData_call fileId hasHeader (mapping (onChange fd [] st))) (name fd) = None"
  by (simp add: onChange_def updateMapping_def setMapping_def handleValidate_call_def
      handleSaveMapping_call_def handleSaveData_call_def filter_entries_def nonempty_entry_def)

end
